theory Spec2Isabelle
  imports Complex_Main
begin

section \<open>Values, exceptions and text helpers\<close>

text \<open>
  The client works on whatever \<^verbatim>\<open>response.json()\<close> returns, and Python checks none of
  the type annotations of \<^verbatim>\<open>Ticket\<close>. The fields of a ticket are therefore values of
  the dynamic type below: JSON null, booleans, integers, floats, strings, arrays and
  objects. An object is an association list read with \<open>map_of\<close>; an element of a
  \<open>string\<close> stands for one character of a Python \<^verbatim>\<open>str\<close>.

  A JSON number with a fraction or an exponent is a Python float: a finite float is
  the rational number it denotes (\<open>FNum\<close> ranges over all rationals, of which the
  doubles are some; 0.0 and -0.0 are both \<open>FNum 0\<close>, and Python treats them alike in
  every operation used here), and the decoder also produces the two infinities and NaN.
\<close>

datatype pyfloat = FNum rat | FInf | FNegInf | FNaN

datatype pyval =
    PNone
  | PBool bool
  | PInt int
  | PFloat pyfloat
  | PStr string
  | PList "pyval list"
  | PDict "(string \<times> pyval) list"

datatype py_exception =
    HTTPStatusError int
  | RequestError
  | JSONDecodeError
  | KeyError string
  | TypeError
  | AttributeError

text \<open>\<^verbatim>\<open>str(n)\<close> for an integer: decimal digits, a leading minus sign below zero.\<close>

definition digit_char :: "nat \<Rightarrow> char" where
  "digit_char d = ''0123456789'' ! d"

fun str_nat :: "nat \<Rightarrow> string" where
  "str_nat n = (if n < 10 then [digit_char n] else str_nat (n div 10) @ [digit_char (n mod 10)])"

declare str_nat.simps [simp del]

definition str_int :: "int \<Rightarrow> string" where
  "str_int i = (if i < 0 then CHR ''-'' # str_nat (nat (- i)) else str_nat (nat i))"

text \<open>
  \<^verbatim>\<open>str(v)\<close>, as an f-string field without a format specification computes it. For a
  float, an array or an object Python prints its \<^verbatim>\<open>repr\<close>; that rendering belongs to
  the interpreter and is taken as the parameter \<open>rp\<close>.
\<close>

fun py_str :: "(pyval \<Rightarrow> string) \<Rightarrow> pyval \<Rightarrow> string" where
  "py_str rp PNone = ''None''"
| "py_str rp (PBool b) = (if b then ''True'' else ''False'')"
| "py_str rp (PInt i) = str_int i"
| "py_str rp (PStr s) = s"
| "py_str rp v = rp v"

text \<open>Truth value of a value in a condition (\<^verbatim>\<open>if v:\<close>).\<close>

fun truthy :: "pyval \<Rightarrow> bool" where
  "truthy PNone = False"
| "truthy (PBool b) = b"
| "truthy (PInt i) = (i \<noteq> 0)"
| "truthy (PFloat x) = (x \<noteq> FNum 0)"
| "truthy (PStr s) = (s \<noteq> [])"
| "truthy (PList xs) = (xs \<noteq> [])"
| "truthy (PDict d) = (d \<noteq> [])"

text \<open>
  \<^verbatim>\<open>v == c\<close> for an integer \<open>c\<close>. A bool is an int in Python: \<^verbatim>\<open>True == 1\<close> and
  \<^verbatim>\<open>False == 0\<close> hold. A float equals an integer when it is finite and denotes the
  same number: \<^verbatim>\<open>2.0 == 2\<close> holds.
\<close>

fun py_eq_int :: "pyval \<Rightarrow> int \<Rightarrow> bool" where
  "py_eq_int (PInt i) c = (i = c)"
| "py_eq_int (PBool b) c = ((if b then 1 else 0) = c)"
| "py_eq_int (PFloat (FNum q)) c = (q = of_int c)"
| "py_eq_int v c = False"

text \<open>Lists and dicts cannot be hashed, so they cannot be looked up in a dict.\<close>

fun hashable :: "pyval \<Rightarrow> bool" where
  "hashable (PList xs) = False"
| "hashable (PDict d) = False"
| "hashable v = True"

text \<open>
  \<^verbatim>\<open>table.get(v, default)\<close> on a dict literal with integer keys: \<^verbatim>\<open>TypeError\<close> for an
  unhashable key, the entry whose key equals \<open>v\<close>, or the default.
\<close>

fun int_dict_get :: "(int \<times> 'a) list \<Rightarrow> pyval \<Rightarrow> 'a \<Rightarrow> py_exception + 'a" where
  "int_dict_get table v dflt =
     (if \<not> hashable v then Inl TypeError
      else case find (\<lambda>(k, x). py_eq_int v k) table of
             None \<Rightarrow> Inr dflt
           | Some (k, x) \<Rightarrow> Inr x)"

text \<open>\<^verbatim>\<open>xs[:n]\<close>: a negative bound counts from the end.\<close>

definition slice_to :: "int \<Rightarrow> 'a list \<Rightarrow> 'a list" where
  "slice_to n xs = (if 0 \<le> n then take (nat n) xs else take (nat (int (length xs) + n)) xs)"

text \<open>Left alignment in a field of width \<open>w\<close> (\<^verbatim>\<open>{s:<w}\<close> on a string).\<close>

definition ljust :: "nat \<Rightarrow> string \<Rightarrow> string" where
  "ljust w s = s @ replicate (w - length s) CHR '' ''"

text \<open>
  \<^verbatim>\<open>format(v, "<w")\<close>: strings and integers are padded, a bool is formatted as the
  integer it is, a float is padded in the rendering \<^verbatim>\<open>str\<close> gives it, and None, lists
  and dicts reject a format specification.
\<close>

fun format_left :: "(pyval \<Rightarrow> string) \<Rightarrow> nat \<Rightarrow> pyval \<Rightarrow> py_exception + string" where
  "format_left rp w (PStr s) = Inr (ljust w s)"
| "format_left rp w (PInt i) = Inr (ljust w (str_int i))"
| "format_left rp w (PBool b) = Inr (ljust w (if b then ''1'' else ''0''))"
| "format_left rp w (PFloat x) = Inr (ljust w (rp (PFloat x)))"
| "format_left rp w v = Inl TypeError"

section \<open>Tickets (api.py)\<close>

record ticket =
  id :: pyval
  subject :: pyval
  description :: pyval
  status :: pyval
  priority :: pyval
  created_at :: pyval
  updated_at :: pyval
  requester_id :: pyval
  responder_id :: pyval

text \<open>\<^verbatim>\<open>data.get(key, default)\<close> on a dict.\<close>

definition dict_get :: "(string \<times> pyval) list \<Rightarrow> string \<Rightarrow> pyval \<Rightarrow> pyval" where
  "dict_get d k dflt = (case map_of d k of None \<Rightarrow> dflt | Some v \<Rightarrow> v)"

text \<open>
  \<^verbatim>\<open>Ticket.from_dict\<close>. Only \<^verbatim>\<open>data["id"]\<close> is a subscript; every other field is read
  with \<^verbatim>\<open>get\<close> and a default (None for \<^verbatim>\<open>responder_id\<close>). Subscripting a value
  that is not a dict with a string raises \<^verbatim>\<open>TypeError\<close>.
\<close>

fun from_dict :: "pyval \<Rightarrow> py_exception + ticket" where
  "from_dict (PDict d) =
     (case map_of d ''id'' of
        None \<Rightarrow> Inl (KeyError ''id'')
      | Some i \<Rightarrow> Inr \<lparr>
          id = i,
          subject = dict_get d ''subject'' (PStr ''''),
          description = dict_get d ''description'' (PStr ''''),
          status = dict_get d ''status'' (PInt 0),
          priority = dict_get d ''priority'' (PInt 0),
          created_at = dict_get d ''created_at'' (PStr ''''),
          updated_at = dict_get d ''updated_at'' (PStr ''''),
          requester_id = dict_get d ''requester_id'' (PInt 0),
          responder_id = dict_get d ''responder_id'' PNone \<rparr>)"
| "from_dict v = Inl TypeError"

section \<open>The HTTP layer\<close>

text \<open>
  The HTTP library is not part of the repository. A request either fails in transport
  (no response: \<^verbatim>\<open>RequestError\<close>) or yields a response with a status code and a
  body; \<open>body = None\<close> is a body that is not JSON, on which \<^verbatim>\<open>response.json()\<close>
  raises. The network and the server together are a function of type \<open>transport\<close>.
\<close>

datatype http_verb = GET | PUT

record request =
  verb :: http_verb
  url :: string
  json_payload :: "pyval option"

record response =
  status_code :: int
  body :: "pyval option"

type_synonym transport = "request \<Rightarrow> response option"

definition send :: "transport \<Rightarrow> request \<Rightarrow> py_exception + response" where
  "send srv rq = (case srv rq of None \<Rightarrow> Inl RequestError | Some r \<Rightarrow> Inr r)"

text \<open>
  \<^verbatim>\<open>response.raise_for_status()\<close>, as the library documents it: an
  \<^verbatim>\<open>HTTPStatusError\<close> for every status outside 200..299.
\<close>

definition raise_for_status :: "response \<Rightarrow> py_exception + response" where
  "raise_for_status r =
     (if 200 \<le> status_code r \<and> status_code r \<le> 299 then Inr r
      else Inl (HTTPStatusError (status_code r)))"

definition json :: "response \<Rightarrow> py_exception + pyval" where
  "json r = (case body r of None \<Rightarrow> Inl JSONDecodeError | Some v \<Rightarrow> Inr v)"

section \<open>The API client (api.py)\<close>

record client =
  api_key :: string
  base_url :: string
  auth :: "string \<times> string"
  headers :: "(string \<times> string) list"

text \<open>\<^verbatim>\<open>FreshserviceClient.__init__\<close> (the 30 second timeout is not modelled).\<close>

definition client_init :: "string \<Rightarrow> string \<Rightarrow> client" where
  "client_init key domain = \<lparr>
     api_key = key,
     base_url = ''https://'' @ domain @ ''/api/v2'',
     auth = (key, ''X''),
     headers = [(''Content-Type'', ''application/json'')] \<rparr>"

text \<open>
  Iterating a value in a comprehension: the elements of a list, the characters of a
  string, the keys of a dict; None, a bool and a number cannot be iterated.
\<close>

fun py_iter :: "pyval \<Rightarrow> py_exception + pyval list" where
  "py_iter (PList xs) = Inr xs"
| "py_iter (PStr s) = Inr (map (\<lambda>c. PStr [c]) s)"
| "py_iter (PDict d) = Inr (map PStr (remdups (map fst d)))"
| "py_iter v = Inl TypeError"

text \<open>\<^verbatim>\<open>[Ticket.from_dict(t) for t in xs]\<close>: the first failure ends the comprehension.\<close>

fun from_dicts :: "pyval list \<Rightarrow> py_exception + ticket list" where
  "from_dicts [] = Inr []"
| "from_dicts (x # xs) =
     (case from_dict x of
        Inl e \<Rightarrow> Inl e
      | Inr t \<Rightarrow> (case from_dicts xs of Inl e \<Rightarrow> Inl e | Inr ts \<Rightarrow> Inr (t # ts)))"

text \<open>\<^verbatim>\<open>data.get("tickets", [])\<close>: only a dict has \<^verbatim>\<open>get\<close>.\<close>

fun get_tickets_field :: "pyval \<Rightarrow> py_exception + pyval" where
  "get_tickets_field (PDict d) = Inr (dict_get d ''tickets'' (PList []))"
| "get_tickets_field v = Inl AttributeError"

text \<open>
  The client-side filter of \<^verbatim>\<open>list_tickets\<close>. The filters are a dict from names to
  integer codes, or None; an empty dict is false in \<^verbatim>\<open>if filters:\<close>.
\<close>

type_synonym filters = "(string \<times> int) list"

definition apply_filters :: "filters option \<Rightarrow> ticket list \<Rightarrow> ticket list" where
  "apply_filters fs tickets =
     (case fs of
        None \<Rightarrow> tickets
      | Some f \<Rightarrow>
          if f = [] then tickets
          else
            let t1 = (case map_of f ''status'' of
                        None \<Rightarrow> tickets
                      | Some c \<Rightarrow> filter (\<lambda>t. py_eq_int (status t) c) tickets);
                t2 = (case map_of f ''priority'' of
                        None \<Rightarrow> t1
                      | Some c \<Rightarrow> filter (\<lambda>t. py_eq_int (priority t) c) t1)
            in t2)"

text \<open>What \<^verbatim>\<open>list_tickets\<close> does with the response it received.\<close>

definition list_tickets_of :: "response \<Rightarrow> filters option \<Rightarrow> int \<Rightarrow> py_exception + ticket list" where
  "list_tickets_of r fs limit =
     (case raise_for_status r of
        Inl e \<Rightarrow> Inl e
      | Inr r' \<Rightarrow>
          (case json r' of
             Inl e \<Rightarrow> Inl e
           | Inr data \<Rightarrow>
               (case get_tickets_field data of
                  Inl e \<Rightarrow> Inl e
                | Inr v \<Rightarrow>
                    (case py_iter v of
                       Inl e \<Rightarrow> Inl e
                     | Inr xs \<Rightarrow>
                         (case from_dicts xs of
                            Inl e \<Rightarrow> Inl e
                          | Inr tickets \<Rightarrow> Inr (slice_to limit (apply_filters fs tickets)))))))"

text \<open>
  Each operation returns the requests it issued together with its result or the
  exception it raised.
\<close>

definition list_tickets ::
  "transport \<Rightarrow> client \<Rightarrow> filters option \<Rightarrow> int \<Rightarrow> request list \<times> (py_exception + ticket list)" where
  "list_tickets srv cl fs limit =
     (let rq = \<lparr> verb = GET, url = base_url cl @ ''/tickets'', json_payload = None \<rparr>
      in ([rq], case send srv rq of Inl e \<Rightarrow> Inl e | Inr r \<Rightarrow> list_tickets_of r fs limit))"

text \<open>\<^verbatim>\<open>data["ticket"]\<close>: a missing key on a dict, a type error on anything else.\<close>

fun get_ticket_field :: "pyval \<Rightarrow> py_exception + pyval" where
  "get_ticket_field (PDict d) =
     (case map_of d ''ticket'' of None \<Rightarrow> Inl (KeyError ''ticket'') | Some v \<Rightarrow> Inr v)"
| "get_ticket_field v = Inl TypeError"

definition get_ticket_of :: "response \<Rightarrow> py_exception + ticket" where
  "get_ticket_of r =
     (case raise_for_status r of
        Inl e \<Rightarrow> Inl e
      | Inr r' \<Rightarrow>
          (case json r' of
             Inl e \<Rightarrow> Inl e
           | Inr data \<Rightarrow>
               (case get_ticket_field data of Inl e \<Rightarrow> Inl e | Inr v \<Rightarrow> from_dict v)))"

definition get_ticket :: "transport \<Rightarrow> client \<Rightarrow> int \<Rightarrow> request list \<times> (py_exception + ticket)" where
  "get_ticket srv cl ticket_id =
     (let rq = \<lparr> verb = GET, url = base_url cl @ ''/tickets/'' @ str_int ticket_id,
                 json_payload = None \<rparr>
      in ([rq], case send srv rq of Inl e \<Rightarrow> Inl e | Inr r \<Rightarrow> get_ticket_of r))"

text \<open>\<^verbatim>\<open>update_ticket_status\<close> returns None: the result carries no value.\<close>

definition update_ticket_status ::
  "transport \<Rightarrow> client \<Rightarrow> int \<Rightarrow> int \<Rightarrow> request list \<times> (py_exception + unit)" where
  "update_ticket_status srv cl ticket_id st =
     (let payload = PDict [(''status'', PInt st)];
          rq = \<lparr> verb = PUT, url = base_url cl @ ''/tickets/'' @ str_int ticket_id,
                 json_payload = Some payload \<rparr>
      in ([rq], case send srv rq of
                  Inl e \<Rightarrow> Inl e
                | Inr r \<Rightarrow> (case raise_for_status r of Inl e \<Rightarrow> Inl e | Inr r' \<Rightarrow> Inr ())))"

section \<open>Configuration (config.py)\<close>

text \<open>
  The process environment is a map from names to values; the configuration object
  holds the key (None when the variable is unset) and the domain. Both operations
  take and return the whole state, so that what they leave alone can be stated.
\<close>

record config =
  cfg_api_key :: "string option"
  cfg_domain :: string

record process =
  environ :: "string \<rightharpoonup> string"
  conf :: config

definition getenv :: "(string \<rightharpoonup> string) \<Rightarrow> string \<Rightarrow> string option" where
  "getenv env name = env name"

definition getenv_default :: "(string \<rightharpoonup> string) \<Rightarrow> string \<Rightarrow> string \<Rightarrow> string" where
  "getenv_default env name dflt = (case env name of None \<Rightarrow> dflt | Some v \<Rightarrow> v)"

text \<open>\<^verbatim>\<open>bool(self.api_key)\<close>: None and the empty string are false.\<close>

definition bool_of_key :: "string option \<Rightarrow> bool" where
  "bool_of_key k = (case k of None \<Rightarrow> False | Some s \<Rightarrow> s \<noteq> [])"

definition load_from_env :: "process \<Rightarrow> process \<times> bool" where
  "load_from_env p =
     (let k = getenv (environ p) ''FRESHSERVICE_API_KEY'';
          d = getenv_default (environ p) ''FRESHSERVICE_DOMAIN'' ''freshservice.com'';
          p' = p\<lparr> conf := \<lparr> cfg_api_key = k, cfg_domain = d \<rparr> \<rparr>
      in (p', bool_of_key k))"

definition save_to_env :: "process \<Rightarrow> string \<Rightarrow> string \<Rightarrow> process" where
  "save_to_env p key domain =
     p\<lparr> environ := (environ p)(''FRESHSERVICE_API_KEY'' \<mapsto> key, ''FRESHSERVICE_DOMAIN'' \<mapsto> domain),
        conf := \<lparr> cfg_api_key = Some key, cfg_domain = domain \<rparr> \<rparr>"

section \<open>The commands (__main__.py)\<close>

text \<open>
  A command run leaves the requests it sent, the lines it echoed and the way it ended:
  normally, with a \<^verbatim>\<open>ClickException\<close> (click prints the one message after
  \<^verbatim>\<open>Error:\<close> and exits with 1), with a \<^verbatim>\<open>UsageError\<close> (exit 2), or with an exception
  that nothing in the command caught, which leaves the program as a traceback.
\<close>

datatype exit_status =
    Success
  | ClickException string
  | UsageError string
  | Uncaught py_exception

record outcome =
  sent :: "request list"
  echoed :: "string list"
  ended :: exit_status

definition status_map :: "(string \<times> int) list" where
  "status_map = [(''open'', 2), (''pending'', 3), (''resolved'', 4), (''closed'', 5)]"

definition status_names :: "(int \<times> string) list" where
  "status_names = [(2, ''Open''), (3, ''Pending''), (4, ''Resolved''), (5, ''Closed'')]"

definition priority_names :: "(int \<times> string) list" where
  "priority_names = [(1, ''Low''), (2, ''Medium''), (3, ''High''), (4, ''Urgent'')]"

text \<open>\<^verbatim>\<open>status_map[status]\<close>.\<close>

definition status_code_of :: "string \<Rightarrow> py_exception + int" where
  "status_code_of s = (case map_of status_map s of None \<Rightarrow> Inl (KeyError s) | Some c \<Rightarrow> Inr c)"

text \<open>
  The filters \<^verbatim>\<open>list\<close> builds from its options: an option that is None, an empty
  status and a priority of 0 are false and add nothing.
\<close>

definition list_filters :: "string option \<Rightarrow> int option \<Rightarrow> py_exception + filters" where
  "list_filters st pr =
     (case (case st of
              None \<Rightarrow> Inr []
            | Some s \<Rightarrow>
                if s = [] then Inr []
                else (case status_code_of s of Inl e \<Rightarrow> Inl e | Inr c \<Rightarrow> Inr [(''status'', c)])) of
        Inl e \<Rightarrow> Inl e
      | Inr f \<Rightarrow>
          (case pr of
             None \<Rightarrow> Inr f
           | Some p \<Rightarrow> if p = 0 then Inr f else Inr (f @ [(''priority'', p)])))"

text \<open>\<^verbatim>\<open>len(v)\<close>.\<close>

fun py_len :: "pyval \<Rightarrow> py_exception + nat" where
  "py_len (PStr s) = Inr (length s)"
| "py_len (PList xs) = Inr (length xs)"
| "py_len (PDict d) = Inr (length (remdups (map fst d)))"
| "py_len v = Inl TypeError"

text \<open>
  \<^verbatim>\<open>v[:37] + "..."\<close>: defined on a string only. A list cannot be concatenated with a
  string and a dict cannot be sliced (\<^verbatim>\<open>TypeError\<close> up to Python 3.11).
\<close>

fun ellipsis37 :: "pyval \<Rightarrow> py_exception + pyval" where
  "ellipsis37 (PStr s) = Inr (PStr (take 37 s @ ''...''))"
| "ellipsis37 v = Inl TypeError"

text \<open>
  \<^verbatim>\<open>ticket.subject[:37] + "..." if len(ticket.subject) > 40 else ticket.subject\<close>
\<close>

definition subject_display :: "pyval \<Rightarrow> py_exception + pyval" where
  "subject_display v =
     (case py_len v of
        Inl e \<Rightarrow> Inl e
      | Inr n \<Rightarrow> if n > 40 then ellipsis37 v else Inr v)"

text \<open>One row of the table, in the order the source evaluates it.\<close>

definition format_row :: "(pyval \<Rightarrow> string) \<Rightarrow> ticket \<Rightarrow> py_exception + string" where
  "format_row rp t =
     (case int_dict_get status_names (status t) (py_str rp (status t)) of
        Inl e \<Rightarrow> Inl e
      | Inr status_display \<Rightarrow>
     (case int_dict_get priority_names (priority t) (py_str rp (priority t)) of
        Inl e \<Rightarrow> Inl e
      | Inr priority_display \<Rightarrow>
     (case subject_display (subject t) of
        Inl e \<Rightarrow> Inl e
      | Inr subj \<Rightarrow>
     (case format_left rp 10 (id t) of
        Inl e \<Rightarrow> Inl e
      | Inr c1 \<Rightarrow>
     (case format_left rp 40 subj of
        Inl e \<Rightarrow> Inl e
      | Inr c2 \<Rightarrow>
          Inr (c1 @ '' '' @ c2 @ '' '' @ ljust 12 status_display @ '' '' @
               ljust 10 priority_display))))))"

text \<open>The loop over the tickets: rows echoed before an exception stay echoed.\<close>

fun echo_rows :: "(pyval \<Rightarrow> string) \<Rightarrow> ticket list \<Rightarrow> string list \<times> py_exception option" where
  "echo_rows rp [] = ([], None)"
| "echo_rows rp (t # ts) =
     (case format_row rp t of
        Inl e \<Rightarrow> ([], Some e)
      | Inr l \<Rightarrow> (case echo_rows rp ts of (ls, r) \<Rightarrow> (l # ls, r)))"

definition table_header :: string where
  "table_header = ''ID         Subject                                    Status       Priority   ''"

text \<open>
  \<^verbatim>\<open>list\<close>. The call of \<^verbatim>\<open>list_tickets\<close> stands in no \<^verbatim>\<open>try\<close>: an exception of
  the client leaves the command uncaught.
\<close>

definition list_cmd ::
  "transport \<Rightarrow> client \<Rightarrow> (pyval \<Rightarrow> string) \<Rightarrow> string option \<Rightarrow> int option \<Rightarrow> int \<Rightarrow> outcome" where
  "list_cmd srv cl rp st pr limit =
     (case list_filters st pr of
        Inl e \<Rightarrow> \<lparr> sent = [], echoed = [], ended = Uncaught e \<rparr>
      | Inr f \<Rightarrow>
          (case list_tickets srv cl (Some f) limit of
             (rqs, Inl e) \<Rightarrow> \<lparr> sent = rqs, echoed = [], ended = Uncaught e \<rparr>
           | (rqs, Inr tickets) \<Rightarrow>
               if tickets = [] then
                 \<lparr> sent = rqs, echoed = [''No tickets found.''], ended = Success \<rparr>
               else
                 (case echo_rows rp tickets of
                    (ls, r) \<Rightarrow>
                      \<lparr> sent = rqs,
                        echoed = table_header # replicate 72 CHR ''-'' # ls,
                        ended = (case r of None \<Rightarrow> Success | Some e \<Rightarrow> Uncaught e) \<rparr>)))"

text \<open>\<^verbatim>\<open>click.echo(v)\<close>: None prints an empty line, anything else its \<^verbatim>\<open>str\<close>.\<close>

definition echo_value :: "(pyval \<Rightarrow> string) \<Rightarrow> pyval \<Rightarrow> string" where
  "echo_value rp v = (if v = PNone then [] else py_str rp v)"

text \<open>\<^verbatim>\<open>ticket.responder_id if ticket.responder_id else "Unassigned"\<close>\<close>

definition assignee :: "ticket \<Rightarrow> pyval" where
  "assignee t = (if truthy (responder_id t) then responder_id t else PStr ''Unassigned'')"

definition assignee_line :: "(pyval \<Rightarrow> string) \<Rightarrow> ticket \<Rightarrow> string" where
  "assignee_line rp t = ''  Assignee:  '' @ py_str rp (assignee t)"

text \<open>
  The detail view of a ticket that was retrieved. The two table lookups stand outside
  the \<^verbatim>\<open>try\<close>; the lines echoed before one of them fails stay echoed.
\<close>

definition view_lines :: "(pyval \<Rightarrow> string) \<Rightarrow> ticket \<Rightarrow> string list \<times> py_exception option" where
  "view_lines rp t =
     (let top = [''Ticket #'' @ py_str rp (id t),
                 replicate 60 CHR ''='',
                 ''Subject: '' @ py_str rp (subject t),
                 ''Description:'',
                 echo_value rp (description t),
                 [],
                 ''Details:'']
      in case int_dict_get (map (\<lambda>(k, s). (k, PStr s)) status_names) (status t) (status t) of
           Inl e \<Rightarrow> (top, Some e)
         | Inr sv \<Rightarrow>
             (case int_dict_get (map (\<lambda>(k, s). (k, PStr s)) priority_names) (priority t)
                     (priority t) of
                Inl e \<Rightarrow> (top @ [''  Status:    '' @ py_str rp sv], Some e)
              | Inr pv \<Rightarrow>
                  (top @ [''  Status:    '' @ py_str rp sv,
                          ''  Priority:  '' @ py_str rp pv,
                          ''  Created:   '' @ py_str rp (created_at t),
                          ''  Updated:   '' @ py_str rp (updated_at t),
                          ''  Requester: '' @ py_str rp (requester_id t),
                          assignee_line rp t], None)))"

text \<open>
  \<^verbatim>\<open>view\<close>. \<open>es\<close> is \<^verbatim>\<open>str(e)\<close> of an exception, the text of the libraries' messages.
\<close>

definition view_cmd ::
  "transport \<Rightarrow> client \<Rightarrow> (pyval \<Rightarrow> string) \<Rightarrow> (py_exception \<Rightarrow> string) \<Rightarrow> int \<Rightarrow> outcome" where
  "view_cmd srv cl rp es ticket_id =
     (case get_ticket srv cl ticket_id of
        (rqs, Inl e) \<Rightarrow>
          \<lparr> sent = rqs, echoed = [],
            ended = ClickException (''Failed to retrieve ticket: '' @ es e) \<rparr>
      | (rqs, Inr t) \<Rightarrow>
          (case view_lines rp t of
             (ls, r) \<Rightarrow>
               \<lparr> sent = rqs, echoed = ls,
                 ended = (case r of None \<Rightarrow> Success | Some e \<Rightarrow> Uncaught e) \<rparr>))"

text \<open>\<^verbatim>\<open>status\<close>. The lookup of the name and the call are both inside the \<^verbatim>\<open>try\<close>.\<close>

definition status_cmd ::
  "transport \<Rightarrow> client \<Rightarrow> (py_exception \<Rightarrow> string) \<Rightarrow> int \<Rightarrow> string \<Rightarrow> outcome" where
  "status_cmd srv cl es ticket_id st =
     (case status_code_of st of
        Inl e \<Rightarrow>
          \<lparr> sent = [], echoed = [],
            ended = ClickException (''Failed to update ticket status: '' @ es e) \<rparr>
      | Inr c \<Rightarrow>
          (case update_ticket_status srv cl ticket_id c of
             (rqs, Inl e) \<Rightarrow>
               \<lparr> sent = rqs, echoed = [],
                 ended = ClickException (''Failed to update ticket status: '' @ es e) \<rparr>
           | (rqs, Inr u) \<Rightarrow>
               \<lparr> sent = rqs,
                 echoed = [''Ticket #'' @ str_int ticket_id @ '' status updated to '' @ st @ ''.''],
                 ended = Success \<rparr>))"

text \<open>The group: no command runs without an API key (None and the empty string are false).\<close>

definition cli :: "string option \<Rightarrow> string \<Rightarrow> (client \<Rightarrow> outcome) \<Rightarrow> outcome" where
  "cli key domain cmd =
     (let usage = \<lparr> sent = [], echoed = [],
                    ended = UsageError
                      (''API key is required. Set FRESHSERVICE_API_KEY environment variable '' @
                       ''or use the --api-key option.'') \<rparr>
      in case key of
           None \<Rightarrow> usage
         | Some k \<Rightarrow> if k = [] then usage else cmd (client_init k domain))"

section \<open>The filter as the specification words it\<close>

text \<open>
  The specification describes the filter of \<^verbatim>\<open>list_tickets\<close> as: if a status filter is
  set, keep only the tickets whose status code matches it; if a priority filter is set,
  keep only the tickets whose priority code matches it. \<open>spec_keeps\<close> is that
  description, to be compared with \<open>apply_filters\<close>, which follows the source.
\<close>

definition filter_value :: "filters option \<Rightarrow> string \<Rightarrow> int option" where
  "filter_value fs k = (case fs of None \<Rightarrow> None | Some f \<Rightarrow> map_of f k)"

definition spec_keeps :: "filters option \<Rightarrow> ticket \<Rightarrow> bool" where
  "spec_keeps fs t =
     ((case filter_value fs ''status'' of None \<Rightarrow> True | Some c \<Rightarrow> py_eq_int (status t) c) \<and>
      (case filter_value fs ''priority'' of None \<Rightarrow> True | Some c \<Rightarrow> py_eq_int (priority t) c))"

section \<open>Sample servers and inputs\<close>

text \<open>Concrete inputs on which the theorems below are instantiated.\<close>

definition sample_client :: client where
  "sample_client = client_init ''key'' ''acme.freshservice.com''"

definition json_server :: "pyval \<Rightarrow> transport" where
  "json_server v = (\<lambda>rq. Some \<lparr> status_code = 200, body = Some v \<rparr>)"

definition status_server :: "int \<Rightarrow> transport" where
  "status_server code = (\<lambda>rq. Some \<lparr> status_code = code, body = None \<rparr>)"

definition sample_ticket :: "int \<Rightarrow> int \<Rightarrow> pyval" where
  "sample_ticket i s = PDict [(''id'', PInt i), (''status'', PInt s)]"

definition sample_parsed :: "int \<Rightarrow> int \<Rightarrow> ticket" where
  "sample_parsed i s = \<lparr> id = PInt i, subject = PStr [], description = PStr [], status = PInt s,
     priority = PInt 0, created_at = PStr [], updated_at = PStr [], requester_id = PInt 0,
     responder_id = PNone \<rparr>"

definition tickets_body :: "pyval list \<Rightarrow> pyval" where
  "tickets_body xs = PDict [(''tickets'', PList xs)]"

definition ticket_body :: "pyval \<Rightarrow> pyval" where
  "ticket_body v = PDict [(''ticket'', v)]"

definition long_subject :: string where
  "long_subject = ''Printer on the third floor keeps jamming badly''"

definition listed_ticket :: "int \<Rightarrow> string \<Rightarrow> int \<Rightarrow> int \<Rightarrow> pyval" where
  "listed_ticket i sub s p =
     PDict [(''id'', PInt i), (''subject'', PStr sub), (''status'', PInt s), (''priority'', PInt p)]"

definition listed_parsed :: "int \<Rightarrow> string \<Rightarrow> int \<Rightarrow> int \<Rightarrow> ticket" where
  "listed_parsed i sub s p = \<lparr> id = PInt i, subject = PStr sub, description = PStr [],
     status = PInt s, priority = PInt p, created_at = PStr [], updated_at = PStr [],
     requester_id = PInt 0, responder_id = PNone \<rparr>"

definition float_status_ticket :: "int \<Rightarrow> rat \<Rightarrow> pyval" where
  "float_status_ticket i q = PDict [(''id'', PInt i), (''status'', PFloat (FNum q))]"

definition no_repr :: "pyval \<Rightarrow> string" where
  "no_repr v = []"

definition no_message :: "py_exception \<Rightarrow> string" where
  "no_message e = []"

section \<open>Auxiliary facts\<close>

lemma py_eq_int_iff:
  "py_eq_int v c = (v = PInt c \<or> (v = PBool True \<and> c = 1) \<or> (v = PBool False \<and> c = 0)
                    \<or> v = PFloat (FNum (of_int c)))"
proof (cases v)
  case (PFloat x)
  then show ?thesis by (cases x) auto
qed auto

lemma apply_filters_spec: "apply_filters fs ts = filter (spec_keeps fs) ts"
proof (cases fs)
  case None
  then show ?thesis by (simp add: apply_filters_def spec_keeps_def filter_value_def)
next
  case (Some f)
  show ?thesis
  proof (cases "f = []")
    case True
    with Some show ?thesis by (simp add: apply_filters_def spec_keeps_def filter_value_def)
  next
    case False
    with Some show ?thesis
      by (cases "map_of f ''status''"; cases "map_of f ''priority''")
         (simp_all add: apply_filters_def spec_keeps_def [abs_def] filter_value_def Let_def)
  qed
qed

lemma from_dicts_all2:
  "from_dicts xs = Inr ts \<Longrightarrow> list_all2 (\<lambda>x t. from_dict x = Inr t) xs ts"
proof (induction xs arbitrary: ts)
  case Nil
  then show ?case by simp
next
  case (Cons x xs)
  then show ?case by (auto split: sum.splits)
qed

lemma list_tickets_of_Inr:
  assumes "list_tickets_of r fs limit = Inr ts"
  shows "\<exists>d xs all. 200 \<le> status_code r \<and> status_code r \<le> 299 \<and> body r = Some (PDict d)
           \<and> py_iter (dict_get d ''tickets'' (PList [])) = Inr xs
           \<and> from_dicts xs = Inr all
           \<and> ts = slice_to limit (apply_filters fs all)"
proof -
  from assms have ok: "200 \<le> status_code r \<and> status_code r \<le> 299"
    by (auto simp: list_tickets_of_def raise_for_status_def split: if_splits)
  from assms ok obtain data where data: "body r = Some data"
    by (cases "body r") (auto simp: list_tickets_of_def raise_for_status_def json_def)
  from assms ok data obtain d where d: "data = PDict d"
    by (cases data) (auto simp: list_tickets_of_def raise_for_status_def json_def)
  from assms ok data d show ?thesis
    by (auto simp: list_tickets_of_def raise_for_status_def json_def split: sum.splits)
qed

lemma list_tickets_snd:
  "snd (list_tickets srv cl fs limit) =
     (case srv \<lparr> verb = GET, url = base_url cl @ ''/tickets'', json_payload = None \<rparr> of
        None \<Rightarrow> Inl RequestError
      | Some r \<Rightarrow> list_tickets_of r fs limit)"
  by (simp add: list_tickets_def send_def Let_def split: option.splits)

lemma list_tickets_fst:
  "fst (list_tickets srv cl fs limit) =
     [\<lparr> verb = GET, url = base_url cl @ ''/tickets'', json_payload = None \<rparr>]"
  by (simp add: list_tickets_def Let_def)

lemma from_dict_sample: "from_dict (sample_ticket i s) = Inr (sample_parsed i s)"
  by (simp add: sample_ticket_def sample_parsed_def dict_get_def)

lemma list_tickets_of_json:
  "list_tickets_of \<lparr> status_code = 200, body = Some (tickets_body xs) \<rparr> fs limit =
     (case from_dicts xs of
        Inl e \<Rightarrow> Inl e
      | Inr all \<Rightarrow> Inr (slice_to limit (apply_filters fs all)))"
  by (simp add: list_tickets_of_def raise_for_status_def json_def tickets_body_def dict_get_def)

lemma set_slice_to: "set (slice_to n xs) \<subseteq> set xs"
  by (simp add: slice_to_def set_take_subset)

lemma list_filters_status:
  assumes "list_filters (Some s) pr = Inr f" and "map_of status_map s = Some c"
  shows "map_of f ''status'' = Some c"
proof -
  from assms(2) have "s \<noteq> []" by (auto simp: status_map_def)
  with assms show ?thesis
    by (auto simp: list_filters_def status_code_of_def split: option.splits if_splits)
qed

lemma status_map_codes:
  "map_of status_map s = Some c \<Longrightarrow> c \<in> {2, 3, 4, 5}"
  by (auto simp: status_map_def split: if_splits)

lemma str_int_42: "str_int 42 = ''42''"
  by code_simp

lemma str_int_1: "str_int 1 = ''1''"
  by code_simp

lemma sample_base_url: "base_url sample_client = ''https://acme.freshservice.com/api/v2''"
  by (simp add: sample_client_def client_init_def)

lemma raise_for_status_error:
  "\<not> (200 \<le> status_code r \<and> status_code r \<le> 299) \<Longrightarrow>
     raise_for_status r = Inl (HTTPStatusError (status_code r))"
  by (simp add: raise_for_status_def)

lemma raise_for_status_ok:
  "200 \<le> status_code r \<Longrightarrow> status_code r \<le> 299 \<Longrightarrow> raise_for_status r = Inr r"
  by (simp add: raise_for_status_def)

lemma list_cmd_http_error:
  assumes "list_filters st pr = Inr f"
    and "srv \<lparr> verb = GET, url = base_url cl @ ''/tickets'', json_payload = None \<rparr> = Some r"
    and "\<not> (200 \<le> status_code r \<and> status_code r \<le> 299)"
  shows "ended (list_cmd srv cl rp st pr limit) = Uncaught (HTTPStatusError (status_code r))"
  using assms(1,2) raise_for_status_error [OF assms(3)]
  by (simp add: list_cmd_def list_tickets_def send_def list_tickets_of_def Let_def)

lemma view_cmd_http_error:
  assumes "srv \<lparr> verb = GET, url = base_url cl @ ''/tickets/'' @ str_int tid,
                  json_payload = None \<rparr> = Some r"
    and "\<not> (200 \<le> status_code r \<and> status_code r \<le> 299)"
  shows "ended (view_cmd srv cl rp es tid) =
           ClickException (''Failed to retrieve ticket: '' @ es (HTTPStatusError (status_code r)))"
  using assms(1) raise_for_status_error [OF assms(2)]
  by (simp add: view_cmd_def get_ticket_def send_def get_ticket_of_def Let_def)

lemma status_cmd_http_error:
  assumes "status_code_of st = Inr c"
    and "srv \<lparr> verb = PUT, url = base_url cl @ ''/tickets/'' @ str_int tid,
                  json_payload = Some (PDict [(''status'', PInt c)]) \<rparr> = Some r"
    and "\<not> (200 \<le> status_code r \<and> status_code r \<le> 299)"
  shows "ended (status_cmd srv cl es tid st) =
           ClickException (''Failed to update ticket status: '' @ es (HTTPStatusError (status_code r)))"
  using assms(1,2) raise_for_status_error [OF assms(3)]
  by (simp add: status_cmd_def update_ticket_status_def send_def Let_def)

lemma get_ticket_json:
  "snd (get_ticket (json_server (ticket_body v)) cl tid) = from_dict v"
  by (simp add: get_ticket_def send_def json_server_def get_ticket_of_def raise_for_status_def
      json_def ticket_body_def Let_def split: sum.splits)

lemma view_lines_last:
  "view_lines rp t = (ls, None) \<Longrightarrow> last ls = assignee_line rp t"
  by (auto simp: view_lines_def Let_def split: sum.splits)

lemma view_lines_hashable:
  "hashable (status t) \<Longrightarrow> hashable (priority t) \<Longrightarrow> snd (view_lines rp t) = None"
  by (auto simp: view_lines_def Let_def split: sum.splits option.splits)

lemma view_cmd_last:
  assumes "snd (get_ticket srv cl tid) = Inr t"
    and "ended (view_cmd srv cl rp es tid) = Success"
  shows "last (echoed (view_cmd srv cl rp es tid)) = assignee_line rp t"
proof -
  obtain rqs where g: "get_ticket srv cl tid = (rqs, Inr t)"
    using assms(1) by (cases "get_ticket srv cl tid") simp
  obtain ls r where v: "view_lines rp t = (ls, r)"
    by (cases "view_lines rp t")
  from assms(2) g v have "r = None"
    by (cases r) (simp_all add: view_cmd_def)
  with v have "last ls = assignee_line rp t" by (simp add: view_lines_last)
  with g v show ?thesis by (simp add: view_cmd_def)
qed

lemma view_cmd_ended:
  assumes "snd (get_ticket srv cl tid) = Inr t"
    and "hashable (status t)" and "hashable (priority t)"
  shows "ended (view_cmd srv cl rp es tid) = Success"
proof -
  obtain rqs where g: "get_ticket srv cl tid = (rqs, Inr t)"
    using assms(1) by (cases "get_ticket srv cl tid") simp
  obtain ls r where v: "view_lines rp t = (ls, r)"
    by (cases "view_lines rp t")
  from view_lines_hashable [OF assms(2,3), of rp] v have "r = None" by simp
  with g v show ?thesis by (simp add: view_cmd_def)
qed

lemma subject_cell:
  assumes "subject_display v = Inr subj" and "format_left rp 40 subj = Inr c2"
  shows "\<exists>s. v = PStr s \<and> c2 = ljust 40 (if 40 < length s then take 37 s @ ''...'' else s)"
  using assms by (cases v) (auto simp: subject_display_def split: if_splits)

lemma format_row_Inr:
  assumes "format_row rp t = Inr line"
  shows "\<exists>s c1 rest. subject t = PStr s \<and> format_left rp 10 (id t) = Inr c1
           \<and> line = c1 @ '' '' @ ljust 40 (if 40 < length s then take 37 s @ ''...'' else s)
                      @ '' '' @ rest"
proof -
  from assms obtain sd pd subj c1 c2
    where sd: "int_dict_get status_names (status t) (py_str rp (status t)) = Inr sd"
      and pd: "int_dict_get priority_names (priority t) (py_str rp (priority t)) = Inr pd"
      and subj: "subject_display (subject t) = Inr subj"
      and c1: "format_left rp 10 (id t) = Inr c1"
      and c2: "format_left rp 40 subj = Inr c2"
    unfolding format_row_def by (auto split: sum.splits)
  from assms sd pd subj c1 c2
  have line: "line = c1 @ '' '' @ c2 @ '' '' @ (ljust 12 sd @ '' '' @ ljust 10 pd)"
    unfolding format_row_def by simp
  from subject_cell [OF subj c2] c1 line show ?thesis by blast
qed

lemma echo_rows_nth:
  "i < length (fst (echo_rows rp ts)) \<Longrightarrow>
     i < length ts \<and> format_row rp (ts ! i) = Inr (fst (echo_rows rp ts) ! i)"
proof (induction ts arbitrary: i)
  case Nil
  then show ?case by simp
next
  case (Cons t ts)
  show ?case
  proof (cases "format_row rp t")
    case (Inl e)
    with Cons.prems show ?thesis by simp
  next
    case (Inr l)
    show ?thesis
    proof (cases i)
      case 0
      with Inr show ?thesis by (simp split: prod.splits)
    next
      case (Suc j)
      with Inr Cons.prems have "j < length (fst (echo_rows rp ts))"
        by (simp split: prod.splits)
      from Cons.IH [OF this] Inr Suc show ?thesis by (simp split: prod.splits)
    qed
  qed
qed

lemma list_cmd_echoed:
  assumes "list_filters st pr = Inr f"
    and "snd (list_tickets srv cl (Some f) limit) = Inr ts"
  shows "echoed (list_cmd srv cl rp st pr limit) =
           (if ts = [] then [''No tickets found.'']
            else table_header # replicate 72 CHR ''-'' # fst (echo_rows rp ts))"
proof -
  obtain rqs where g: "list_tickets srv cl (Some f) limit = (rqs, Inr ts)"
    using assms(2) by (cases "list_tickets srv cl (Some f) limit") simp
  with assms(1) show ?thesis
    by (simp add: list_cmd_def split: prod.splits)
qed

lemma ljust_long: "w \<le> length s \<Longrightarrow> ljust w s = s"
  by (simp add: ljust_def)

lemma from_dict_listed: "from_dict (listed_ticket i sub s p) = Inr (listed_parsed i sub s p)"
  by (simp add: listed_ticket_def listed_parsed_def dict_get_def)

lemma str_int_2: "str_int 2 = ''2''"
  by code_simp

lemma str_int_0: "str_int 0 = ''0''"
  by code_simp

lemma format_row_long:
  "format_row rp (listed_parsed 1 long_subject 2 3) =
     Inr ''1          Printer on the third floor keeps jamm... Open         High      ''"
  by (simp add: format_row_def listed_parsed_def long_subject_def status_names_def
      priority_names_def subject_display_def ljust_def str_int_1 eval_nat_numeral)

lemma format_row_short:
  "format_row rp (listed_parsed 2 ''VPN down'' 5 0) =
     Inr ''2          VPN down                                 Closed       0         ''"
  by (simp add: format_row_def listed_parsed_def status_names_def
      priority_names_def subject_display_def ljust_def str_int_2 str_int_0 eval_nat_numeral)

lemma echo_rows_length: "length (fst (echo_rows rp ts)) \<le> length ts"
proof (induction ts)
  case Nil
  then show ?case by simp
next
  case (Cons t ts)
  then show ?case by (cases "format_row rp t"; cases "echo_rows rp ts") simp_all
qed

lemma echo_rows_complete:
  "snd (echo_rows rp ts) = None \<Longrightarrow> length (fst (echo_rows rp ts)) = length ts"
proof (induction ts)
  case Nil
  then show ?case by simp
next
  case (Cons t ts)
  then show ?case by (cases "format_row rp t"; cases "echo_rows rp ts") simp_all
qed

lemma list_cmd_ended:
  assumes "list_filters st pr = Inr f"
    and "snd (list_tickets srv cl (Some f) limit) = Inr ts"
  shows "ended (list_cmd srv cl rp st pr limit) =
           (if ts = [] then Success
            else case snd (echo_rows rp ts) of None \<Rightarrow> Success | Some e \<Rightarrow> Uncaught e)"
proof -
  obtain rqs where g: "list_tickets srv cl (Some f) limit = (rqs, Inr ts)"
    using assms(2) by (cases "list_tickets srv cl (Some f) limit") simp
  with assms(1) show ?thesis
    by (simp add: list_cmd_def split: prod.splits)
qed

lemma from_dict_float_status:
  "from_dict (float_status_ticket i q) = Inr ((sample_parsed i 0)\<lparr> status := PFloat (FNum q) \<rparr>)"
  by (simp add: float_status_ticket_def sample_parsed_def dict_get_def)

lemma str_int_3: "str_int 3 = ''3''"
  by code_simp

lemma format_row_open_1:
  "format_row rp (sample_parsed 1 2) =
     Inr ''1                                                   Open         0         ''"
  by (simp add: format_row_def sample_parsed_def status_names_def priority_names_def
      subject_display_def ljust_def str_int_1 str_int_0 eval_nat_numeral)

lemma format_row_open_3:
  "format_row rp ((sample_parsed 3 0)\<lparr> status := PFloat (FNum 2) \<rparr>) =
     Inr ''3                                                   Open         0         ''"
  by (simp add: format_row_def sample_parsed_def status_names_def priority_names_def
      subject_display_def ljust_def str_int_3 str_int_0 eval_nat_numeral)

section \<open>Ticket construction\<close>

text \<open>
  C5. A response dict that has the key \<^verbatim>\<open>id\<close> always yields a ticket. In that ticket a
  missing subject, description, created_at or updated_at is the empty string, a missing
  status, priority or requester_id is 0 (requester_id included, although the data model
  calls it required), and a missing responder_id is None.
\<close>

theorem from_dict_defaults:
  assumes "map_of d ''id'' = Some i"
  shows "\<exists>t. from_dict (PDict d) = Inr t \<and> id t = i
    \<and> (map_of d ''subject'' = None \<longrightarrow> subject t = PStr [])
    \<and> (map_of d ''description'' = None \<longrightarrow> description t = PStr [])
    \<and> (map_of d ''created_at'' = None \<longrightarrow> created_at t = PStr [])
    \<and> (map_of d ''updated_at'' = None \<longrightarrow> updated_at t = PStr [])
    \<and> (map_of d ''status'' = None \<longrightarrow> status t = PInt 0)
    \<and> (map_of d ''priority'' = None \<longrightarrow> priority t = PInt 0)
    \<and> (map_of d ''requester_id'' = None \<longrightarrow> requester_id t = PInt 0)
    \<and> (map_of d ''responder_id'' = None \<longrightarrow> responder_id t = PNone)"
  using assms by (simp add: dict_get_def)

theorem from_dict_defaults_witness:
  "\<exists>t. from_dict (PDict [(''id'', PInt 7)]) = Inr t \<and> id t = PInt 7
    \<and> subject t = PStr [] \<and> description t = PStr [] \<and> created_at t = PStr []
    \<and> updated_at t = PStr [] \<and> status t = PInt 0 \<and> priority t = PInt 0
    \<and> requester_id t = PInt 0 \<and> responder_id t = PNone"
  using from_dict_defaults [of "[(''id'', PInt 7)]" "PInt 7"] by simp

text \<open>
  C10. On a dict, \<^verbatim>\<open>from_dict\<close> fails exactly when the key \<^verbatim>\<open>id\<close> is absent, and the
  failure is the \<^verbatim>\<open>KeyError\<close> of that key; it returns a ticket exactly when the key is
  there. A dict with \<^verbatim>\<open>id\<close> alone gives the ticket of all defaults.
\<close>

theorem from_dict_fails_iff_no_id:
  "(from_dict (PDict d) = Inl (KeyError ''id'')) = (map_of d ''id'' = None)
   \<and> ((\<exists>e. from_dict (PDict d) = Inl e) = (map_of d ''id'' = None))
   \<and> ((\<exists>t. from_dict (PDict d) = Inr t) = (map_of d ''id'' \<noteq> None))
   \<and> from_dict (PDict [(''id'', v)]) =
        Inr \<lparr> id = v, subject = PStr [], description = PStr [], status = PInt 0,
              priority = PInt 0, created_at = PStr [], updated_at = PStr [],
              requester_id = PInt 0, responder_id = PNone \<rparr>"
  by (cases "map_of d ''id''") (simp_all add: dict_get_def)

section \<open>Configuration loading\<close>

text \<open>
  C8. \<^verbatim>\<open>load_from_env\<close> stores the value of \<^verbatim>\<open>FRESHSERVICE_API_KEY\<close> as the key and
  the value of \<^verbatim>\<open>FRESHSERVICE_DOMAIN\<close>, or \<^verbatim>\<open>freshservice.com\<close> when that variable is
  unset, as the domain. It returns true exactly when the key variable is set to a
  non-empty value, and it leaves the environment as it found it.
\<close>

theorem load_from_env_reads_only:
  "cfg_api_key (conf (fst (load_from_env p))) = environ p ''FRESHSERVICE_API_KEY''
   \<and> cfg_domain (conf (fst (load_from_env p))) =
        (case environ p ''FRESHSERVICE_DOMAIN'' of None \<Rightarrow> ''freshservice.com'' | Some d \<Rightarrow> d)
   \<and> snd (load_from_env p) = (\<exists>k. environ p ''FRESHSERVICE_API_KEY'' = Some k \<and> k \<noteq> [])
   \<and> environ (fst (load_from_env p)) = environ p"
  by (simp add: load_from_env_def getenv_def getenv_default_def bool_of_key_def Let_def
      split: option.splits)

section \<open>Listing tickets\<close>

text \<open>
  C3. When \<^verbatim>\<open>list_tickets\<close> returns and its filters hold a status (a priority), every
  ticket it returns has a status (a priority) equal to the filter value, in the sense of
  the \<^verbatim>\<open>==\<close> of the source. The command maps the names open, pending, resolved and
  closed to the codes 2, 3, 4 and 5 and to nothing else. Running \<^verbatim>\<open>list\<close> with one of
  these names, \<^verbatim>\<open>--status open\<close> and its code 2 among them, whatever the server sent:
  every ticket returned has the code as its raw status, as the integer or as the float
  of the same value; every row the command echoes below the header is the row of the
  ticket at the same position of that result, whose status equals the code; and when
  the command ends normally there is a row for each of these tickets.
\<close>

theorem list_tickets_filter_sound:
  assumes "snd (list_tickets srv cl (Some f) limit) = Inr ts"
  shows "(\<forall>c. map_of f ''status'' = Some c \<longrightarrow> (\<forall>t\<in>set ts. py_eq_int (status t) c))
       \<and> (\<forall>c. map_of f ''priority'' = Some c \<longrightarrow> (\<forall>t\<in>set ts. py_eq_int (priority t) c))
       \<and> (\<forall>s c pr. map_of status_map s = Some c \<longrightarrow> list_filters (Some s) pr = Inr f \<longrightarrow>
             (\<forall>t\<in>set ts. status t = PInt c \<or> status t = PFloat (FNum (of_int c))))
       \<and> (\<forall>s c pr rp hdr sep rows.
             map_of status_map s = Some c \<longrightarrow> list_filters (Some s) pr = Inr f \<longrightarrow>
             echoed (list_cmd srv cl rp (Some s) pr limit) = hdr # sep # rows \<longrightarrow>
               length rows \<le> length ts
             \<and> (ended (list_cmd srv cl rp (Some s) pr limit) = Success \<longrightarrow>
                   length rows = length ts)
             \<and> (\<forall>i<length rows. format_row rp (ts ! i) = Inr (rows ! i)
                   \<and> py_eq_int (status (ts ! i)) c))
       \<and> map_of status_map ''open'' = Some 2 \<and> map_of status_map ''pending'' = Some 3
       \<and> map_of status_map ''resolved'' = Some 4 \<and> map_of status_map ''closed'' = Some 5
       \<and> dom (map_of status_map) = {''open'', ''pending'', ''resolved'', ''closed''}"
proof -
  from assms obtain r where "list_tickets_of r (Some f) limit = Inr ts"
    by (auto simp: list_tickets_snd split: option.splits)
  then obtain all where ts: "ts = slice_to limit (apply_filters (Some f) all)"
    using list_tickets_of_Inr by blast
  have sub: "set ts \<subseteq> set (filter (spec_keeps (Some f)) all)"
    unfolding ts apply_filters_spec by (rule set_slice_to)
  have st: "py_eq_int (status t) c" if "map_of f ''status'' = Some c" "t \<in> set ts" for c t
    using sub that by (auto simp: spec_keeps_def filter_value_def)
  have pr: "py_eq_int (priority t) c" if "map_of f ''priority'' = Some c" "t \<in> set ts" for c t
    using sub that by (auto simp: spec_keeps_def filter_value_def)
  have cli: "py_eq_int (status t) c"
    if "map_of status_map s = Some c" "list_filters (Some s) p = Inr f" "t \<in> set ts" for s c p t
  proof -
    from that(2,1) have "map_of f ''status'' = Some c" by (rule list_filters_status)
    then show ?thesis using that(3) by (rule st)
  qed
  have raw: "status t = PInt c \<or> status t = PFloat (FNum (of_int c))"
    if "map_of status_map s = Some c" "list_filters (Some s) p = Inr f" "t \<in> set ts" for s c p t
  proof -
    from that have "py_eq_int (status t) c" by (rule cli)
    moreover from that(1) have "c \<in> {2, 3, 4, 5}" by (rule status_map_codes)
    ultimately show ?thesis by (auto simp: py_eq_int_iff)
  qed
  have cmd: "length rows \<le> length ts
      \<and> (ended (list_cmd srv cl rp (Some s) p limit) = Success \<longrightarrow> length rows = length ts)
      \<and> (\<forall>i<length rows. format_row rp (ts ! i) = Inr (rows ! i) \<and> py_eq_int (status (ts ! i)) c)"
    if m: "map_of status_map s = Some c" and fl: "list_filters (Some s) p = Inr f"
      and ech: "echoed (list_cmd srv cl rp (Some s) p limit) = hdr # sep # rows"
    for s c p rp hdr sep rows
  proof -
    from list_cmd_echoed [OF fl assms, of rp] ech
    have ne: "ts \<noteq> []" and rows: "rows = fst (echo_rows rp ts)"
      by (simp_all split: if_splits)
    have len: "length rows \<le> length ts"
      unfolding rows by (rule echo_rows_length)
    have full: "length rows = length ts"
      if "ended (list_cmd srv cl rp (Some s) p limit) = Success"
    proof -
      from that list_cmd_ended [OF fl assms, of rp] ne
      have "snd (echo_rows rp ts) = None"
        by (simp split: option.splits)
      then show ?thesis unfolding rows by (rule echo_rows_complete)
    qed
    have each: "format_row rp (ts ! i) = Inr (rows ! i) \<and> py_eq_int (status (ts ! i)) c"
      if "i < length rows" for i
    proof -
      from that rows have "i < length ts \<and> format_row rp (ts ! i) = Inr (rows ! i)"
        using echo_rows_nth [of i rp ts] by simp
      moreover from this have "ts ! i \<in> set ts" by simp
      with m fl have "py_eq_int (status (ts ! i)) c" by (rule cli)
      ultimately show ?thesis by simp
    qed
    from len full each show ?thesis by blast
  qed
  have codes: "map_of status_map ''open'' = Some 2 \<and> map_of status_map ''pending'' = Some 3
       \<and> map_of status_map ''resolved'' = Some 4 \<and> map_of status_map ''closed'' = Some 5"
    by (simp add: status_map_def)
  have names: "dom (map_of status_map) = {''open'', ''pending'', ''resolved'', ''closed''}"
    by (auto simp: status_map_def dom_def split: if_splits)
  show ?thesis
    using st pr raw cmd codes names by (intro conjI allI impI ballI) blast+
qed

theorem list_tickets_filter_sound_witness:
  "list_filters (Some ''open'') None = Inr [(''status'', 2)]
   \<and> map_of status_map ''open'' = Some 2
   \<and> snd (list_tickets
            (json_server (tickets_body
               [sample_ticket 1 2, sample_ticket 2 5, float_status_ticket 3 2]))
            sample_client (Some [(''status'', 2)]) 20) =
       Inr [sample_parsed 1 2, (sample_parsed 3 0)\<lparr> status := PFloat (FNum 2) \<rparr>]
   \<and> echoed (list_cmd
            (json_server (tickets_body
               [sample_ticket 1 2, sample_ticket 2 5, float_status_ticket 3 2]))
            sample_client no_repr (Some ''open'') None 20) =
       [table_header, replicate 72 CHR ''-'',
        ''1                                                   Open         0         '',
        ''3                                                   Open         0         '']
   \<and> ended (list_cmd
            (json_server (tickets_body
               [sample_ticket 1 2, sample_ticket 2 5, float_status_ticket 3 2]))
            sample_client no_repr (Some ''open'') None 20) = Success
   \<and> py_eq_int (status (sample_parsed 1 2)) 2
   \<and> py_eq_int (status ((sample_parsed 3 0)\<lparr> status := PFloat (FNum 2) \<rparr>)) 2"
proof -
  let ?srv = "json_server (tickets_body
               [sample_ticket 1 2, sample_ticket 2 5, float_status_ticket 3 2])"
  let ?ts = "[sample_parsed 1 2, (sample_parsed 3 0)\<lparr> status := PFloat (FNum 2) \<rparr>]"
  let ?rows = "[''1                                                   Open         0         '',
        ''3                                                   Open         0         '']"
  have fl: "list_filters (Some ''open'') None = Inr [(''status'', 2)]"
    by (simp add: list_filters_def status_code_of_def status_map_def)
  have m: "map_of status_map ''open'' = Some 2"
    by (simp add: status_map_def)
  have run: "snd (list_tickets ?srv sample_client (Some [(''status'', 2)]) 20) = Inr ?ts"
    by (simp add: list_tickets_snd json_server_def list_tickets_of_json from_dict_sample
        from_dict_float_status apply_filters_def slice_to_def sample_parsed_def)
  have ech: "echoed (list_cmd ?srv sample_client no_repr (Some ''open'') None 20) =
      table_header # replicate 72 CHR ''-'' # ?rows"
    by (simp add: list_cmd_echoed [OF fl run] format_row_open_1 format_row_open_3)
  have en: "ended (list_cmd ?srv sample_client no_repr (Some ''open'') None 20) = Success"
    by (simp add: list_cmd_ended [OF fl run] format_row_open_1 format_row_open_3)
  note cmd = list_tickets_filter_sound [OF run, THEN conjunct2, THEN conjunct2, THEN conjunct2,
      THEN conjunct1, rule_format, OF m fl ech]
  from cmd [THEN conjunct2, THEN conjunct1, THEN mp, OF en]
  have full: "length ?rows = length ?ts" .
  have eq: "py_eq_int (status (sample_parsed 1 2)) 2
      \<and> py_eq_int (status ((sample_parsed 3 0)\<lparr> status := PFloat (FNum 2) \<rparr>)) 2"
    by (simp add: sample_parsed_def)
  from fl m run ech en eq full show ?thesis by simp
qed

text \<open>
  C4, for a limit that is not negative. When \<^verbatim>\<open>list_tickets\<close> returns with a limit
  \<open>N \<ge> 0\<close>, the server's tickets array was parsed element by element in its order,
  and the result is the first \<open>N\<close> of the parsed tickets that the filters keep, so at
  most \<open>N\<close> tickets. On three tickets with the statuses 2, 5, 5, the status filter of
  \<^verbatim>\<open>--status closed\<close> and the limit 1, the result is the one ticket that is the first closed.
\<close>

theorem list_tickets_limit:
  assumes "snd (list_tickets srv cl fs limit) = Inr ts" and "0 \<le> limit"
  shows "\<exists>r d xs all.
      srv \<lparr> verb = GET, url = base_url cl @ ''/tickets'', json_payload = None \<rparr> = Some r
    \<and> body r = Some (PDict d)
    \<and> py_iter (dict_get d ''tickets'' (PList [])) = Inr xs
    \<and> list_all2 (\<lambda>x t. from_dict x = Inr t) xs all
    \<and> ts = take (nat limit) (filter (spec_keeps fs) all)
    \<and> int (length ts) \<le> limit"
proof -
  from assms(1) obtain r
    where r: "srv \<lparr> verb = GET, url = base_url cl @ ''/tickets'', json_payload = None \<rparr> = Some r"
      and res: "list_tickets_of r fs limit = Inr ts"
    by (auto simp: list_tickets_snd split: option.splits)
  from list_tickets_of_Inr [OF res] obtain d xs all
    where d: "body r = Some (PDict d)"
      and xs: "py_iter (dict_get d ''tickets'' (PList [])) = Inr xs"
      and all: "from_dicts xs = Inr all"
      and ts: "ts = slice_to limit (apply_filters fs all)"
    by blast
  from ts assms(2) have ts': "ts = take (nat limit) (filter (spec_keeps fs) all)"
    by (simp add: slice_to_def apply_filters_spec)
  then have "length ts \<le> nat limit" by simp
  with assms(2) have len: "int (length ts) \<le> limit" by linarith
  from r d xs from_dicts_all2 [OF all] ts' len show ?thesis by blast
qed

theorem list_tickets_limit_witness:
  "list_filters (Some ''closed'') None = Inr [(''status'', 5)]
   \<and> (0::int) \<le> 1
   \<and> snd (list_tickets
            (json_server (tickets_body [sample_ticket 1 2, sample_ticket 2 5, sample_ticket 3 5]))
            sample_client (Some [(''status'', 5)]) 1) = Inr [sample_parsed 2 5]
   \<and> [sample_parsed 2 5] =
       take (nat 1) (filter (spec_keeps (Some [(''status'', 5)]))
         [sample_parsed 1 2, sample_parsed 2 5, sample_parsed 3 5])
   \<and> int (length [sample_parsed 2 5]) \<le> 1"
proof -
  have run: "snd (list_tickets
            (json_server (tickets_body [sample_ticket 1 2, sample_ticket 2 5, sample_ticket 3 5]))
            sample_client (Some [(''status'', 5)]) 1) = Inr [sample_parsed 2 5]"
    by (simp add: list_tickets_snd json_server_def list_tickets_of_json from_dict_sample
        apply_filters_def slice_to_def sample_parsed_def)
  have fl: "list_filters (Some ''closed'') None = Inr [(''status'', 5)]"
    by (simp add: list_filters_def status_code_of_def status_map_def)
  have le: "(0::int) \<le> 1" by simp
  have sp: "[sample_parsed 2 5] =
       take (nat 1) (filter (spec_keeps (Some [(''status'', 5)]))
         [sample_parsed 1 2, sample_parsed 2 5, sample_parsed 3 5])"
    by (simp add: spec_keeps_def filter_value_def sample_parsed_def)
  from list_tickets_limit [OF run le] have "int (length [sample_parsed 2 5]) \<le> 1" by blast
  with run fl le sp show ?thesis by blast
qed

text \<open>
  A negative limit is a slice bound counted from the end: with the limit -1 and two
  tickets the result has one ticket, which is more than the limit.
\<close>

theorem list_tickets_negative_limit_counterexample:
  "snd (list_tickets (json_server (tickets_body [sample_ticket 1 2, sample_ticket 2 2]))
          sample_client (Some []) (- 1)) = Inr [sample_parsed 1 2]
   \<and> \<not> int (length [sample_parsed 1 2]) \<le> - 1"
  by (simp add: list_tickets_snd json_server_def list_tickets_of_json from_dict_sample
      apply_filters_def slice_to_def)

section \<open>HTTP errors at the command layer\<close>

text \<open>
  C1. On the status 500, \<^verbatim>\<open>list\<close> ends with the \<^verbatim>\<open>HTTPStatusError\<close> uncaught and
  nothing echoed: no handler stands around its call of the client. \<^verbatim>\<open>view\<close> and
  \<^verbatim>\<open>status\<close> on the same server end with a \<^verbatim>\<open>ClickException\<close> whose one message
  carries the text of the error.
\<close>

theorem list_cmd_http_error_not_caught:
  "list_cmd (status_server 500) sample_client rp None None 20 =
     \<lparr> sent = [\<lparr> verb = GET, url = ''https://acme.freshservice.com/api/v2/tickets'',
                 json_payload = None \<rparr>],
       echoed = [],
       ended = Uncaught (HTTPStatusError 500) \<rparr>
   \<and> ended (view_cmd (status_server 500) sample_client rp es 1) =
       ClickException (''Failed to retrieve ticket: '' @ es (HTTPStatusError 500))
   \<and> ended (status_cmd (status_server 500) sample_client es 1 ''closed'') =
       ClickException (''Failed to update ticket status: '' @ es (HTTPStatusError 500))"
proof -
  have l: "list_cmd (status_server 500) sample_client rp None None 20 =
     \<lparr> sent = [\<lparr> verb = GET, url = ''https://acme.freshservice.com/api/v2/tickets'',
                 json_payload = None \<rparr>],
       echoed = [],
       ended = Uncaught (HTTPStatusError 500) \<rparr>"
    by (simp add: list_cmd_def list_filters_def list_tickets_def send_def status_server_def
        list_tickets_of_def raise_for_status_def sample_base_url Let_def)
  have v: "ended (view_cmd (status_server 500) sample_client rp es 1) =
       ClickException (''Failed to retrieve ticket: '' @ es (HTTPStatusError 500))"
    using view_cmd_http_error [of "status_server 500" sample_client 1 _ rp es]
    by (simp add: status_server_def)
  have s: "ended (status_cmd (status_server 500) sample_client es 1 ''closed'') =
       ClickException (''Failed to update ticket status: '' @ es (HTTPStatusError 500))"
    using status_cmd_http_error [of "''closed''" 5 "status_server 500" sample_client 1 _ es]
    by (simp add: status_server_def status_code_of_def status_map_def)
  from l v s show ?thesis by blast
qed

section \<open>The assignee line of the detail view\<close>

text \<open>
  C6, for a responder id other than 0. When \<^verbatim>\<open>view\<close> retrieves a ticket and runs to
  its end, its last line is the assignee line. For a ticket whose responder_id is None
  (absent from the response, or null) the line shows \<^verbatim>\<open>Unassigned\<close>; for a responder_id
  that is an integer other than 0 it shows that integer.
\<close>

theorem view_assignee_display:
  assumes "snd (get_ticket srv cl tid) = Inr t"
    and "ended (view_cmd srv cl rp es tid) = Success"
  shows "(responder_id t = PNone \<longrightarrow>
            last (echoed (view_cmd srv cl rp es tid)) = ''  Assignee:  Unassigned'')
       \<and> (\<forall>n. responder_id t = PInt n \<longrightarrow> n \<noteq> 0 \<longrightarrow>
            last (echoed (view_cmd srv cl rp es tid)) = ''  Assignee:  '' @ str_int n)"
  using view_cmd_last [OF assms] by (simp add: assignee_line_def assignee_def)

theorem view_assignee_display_witness:
  "snd (get_ticket (json_server (ticket_body (PDict [(''id'', PInt 1)]))) sample_client 1) =
     Inr (sample_parsed 1 0)
   \<and> responder_id (sample_parsed 1 0) = PNone
   \<and> ended (view_cmd (json_server (ticket_body (PDict [(''id'', PInt 1)]))) sample_client
              no_repr no_message 1) = Success
   \<and> last (echoed (view_cmd (json_server (ticket_body (PDict [(''id'', PInt 1)]))) sample_client
              no_repr no_message 1)) = ''  Assignee:  Unassigned''
   \<and> snd (get_ticket (json_server (ticket_body
              (PDict [(''id'', PInt 1), (''responder_id'', PInt 42)]))) sample_client 1) =
     Inr ((sample_parsed 1 0)\<lparr> responder_id := PInt 42 \<rparr>)
   \<and> ended (view_cmd (json_server (ticket_body
              (PDict [(''id'', PInt 1), (''responder_id'', PInt 42)]))) sample_client
              no_repr no_message 1) = Success
   \<and> last (echoed (view_cmd (json_server (ticket_body
              (PDict [(''id'', PInt 1), (''responder_id'', PInt 42)]))) sample_client
              no_repr no_message 1)) = ''  Assignee:  42''"
proof -
  let ?a = "json_server (ticket_body (PDict [(''id'', PInt 1)]))"
  let ?b = "json_server (ticket_body (PDict [(''id'', PInt 1), (''responder_id'', PInt 42)]))"
  have ga: "snd (get_ticket ?a sample_client 1) = Inr (sample_parsed 1 0)"
    by (simp add: get_ticket_json sample_parsed_def dict_get_def)
  have gb: "snd (get_ticket ?b sample_client 1) =
      Inr ((sample_parsed 1 0)\<lparr> responder_id := PInt 42 \<rparr>)"
    by (simp add: get_ticket_json sample_parsed_def dict_get_def)
  have ea: "ended (view_cmd ?a sample_client no_repr no_message 1) = Success"
    by (rule view_cmd_ended [OF ga]) (simp_all add: sample_parsed_def)
  have eb: "ended (view_cmd ?b sample_client no_repr no_message 1) = Success"
    by (rule view_cmd_ended [OF gb]) (simp_all add: sample_parsed_def)
  have ra: "responder_id (sample_parsed 1 0) = PNone" by (simp add: sample_parsed_def)
  from view_assignee_display [OF ga ea] ra
  have la: "last (echoed (view_cmd ?a sample_client no_repr no_message 1)) =
      ''  Assignee:  Unassigned''" by simp
  from view_assignee_display [OF gb eb]
  have lb: "last (echoed (view_cmd ?b sample_client no_repr no_message 1)) =
      ''  Assignee:  42''" by (simp add: str_int_42)
  from ga ra ea la gb eb lb show ?thesis by simp
qed

text \<open>
  A responder_id that is present and equal to 0 is not displayed as the integer 0: the
  line shows \<^verbatim>\<open>Unassigned\<close>.
\<close>

theorem view_zero_responder_counterexample:
  "snd (get_ticket (json_server (ticket_body
          (PDict [(''id'', PInt 1), (''responder_id'', PInt 0)]))) sample_client 1) =
     Inr ((sample_parsed 1 0)\<lparr> responder_id := PInt 0 \<rparr>)
   \<and> ended (view_cmd (json_server (ticket_body
          (PDict [(''id'', PInt 1), (''responder_id'', PInt 0)]))) sample_client
          no_repr no_message 1) = Success
   \<and> last (echoed (view_cmd (json_server (ticket_body
          (PDict [(''id'', PInt 1), (''responder_id'', PInt 0)]))) sample_client
          no_repr no_message 1)) = ''  Assignee:  Unassigned''
   \<and> last (echoed (view_cmd (json_server (ticket_body
          (PDict [(''id'', PInt 1), (''responder_id'', PInt 0)]))) sample_client
          no_repr no_message 1)) \<noteq> ''  Assignee:  '' @ str_int 0"
proof -
  let ?s = "json_server (ticket_body (PDict [(''id'', PInt 1), (''responder_id'', PInt 0)]))"
  have g: "snd (get_ticket ?s sample_client 1) =
      Inr ((sample_parsed 1 0)\<lparr> responder_id := PInt 0 \<rparr>)"
    by (simp add: get_ticket_json sample_parsed_def dict_get_def)
  have e: "ended (view_cmd ?s sample_client no_repr no_message 1) = Success"
    by (rule view_cmd_ended [OF g]) (simp_all add: sample_parsed_def)
  have u: "last (echoed (view_cmd ?s sample_client no_repr no_message 1)) =
      ''  Assignee:  Unassigned''"
    using view_cmd_last [OF g e] by (simp add: assignee_line_def assignee_def)
  then have "last (echoed (view_cmd ?s sample_client no_repr no_message 1)) \<noteq>
      ''  Assignee:  '' @ str_int 0"
    by (simp add: str_int_def str_nat.simps [of 0] digit_char_def)
  with g e u show ?thesis by simp
qed

text \<open>
  C9. The assignee test is a truth test: for every ticket whose responder_id is false
  as a condition, which 0 is as well as None, the assignee line of \<^verbatim>\<open>view\<close> shows
  \<^verbatim>\<open>Unassigned\<close>.
\<close>

theorem view_falsy_responder_unassigned:
  assumes "snd (get_ticket srv cl tid) = Inr t"
    and "ended (view_cmd srv cl rp es tid) = Success"
    and "\<not> truthy (responder_id t)"
  shows "last (echoed (view_cmd srv cl rp es tid)) = ''  Assignee:  Unassigned''
       \<and> \<not> truthy (PInt 0) \<and> \<not> truthy PNone"
  using view_cmd_last [OF assms(1,2)] assms(3) by (simp add: assignee_line_def assignee_def)

theorem view_falsy_responder_unassigned_witness:
  "snd (get_ticket (json_server (ticket_body
          (PDict [(''id'', PInt 42), (''responder_id'', PInt 0)]))) sample_client 42) =
     Inr ((sample_parsed 42 0)\<lparr> responder_id := PInt 0 \<rparr>)
   \<and> responder_id ((sample_parsed 42 0)\<lparr> responder_id := PInt 0 \<rparr>) = PInt 0
   \<and> ended (view_cmd (json_server (ticket_body
          (PDict [(''id'', PInt 42), (''responder_id'', PInt 0)]))) sample_client
          no_repr no_message 42) = Success
   \<and> last (echoed (view_cmd (json_server (ticket_body
          (PDict [(''id'', PInt 42), (''responder_id'', PInt 0)]))) sample_client
          no_repr no_message 42)) = ''  Assignee:  Unassigned''"
proof -
  let ?s = "json_server (ticket_body (PDict [(''id'', PInt 42), (''responder_id'', PInt 0)]))"
  have g: "snd (get_ticket ?s sample_client 42) =
      Inr ((sample_parsed 42 0)\<lparr> responder_id := PInt 0 \<rparr>)"
    by (simp add: get_ticket_json sample_parsed_def dict_get_def)
  have e: "ended (view_cmd ?s sample_client no_repr no_message 42) = Success"
    by (rule view_cmd_ended [OF g]) (simp_all add: sample_parsed_def)
  have f: "\<not> truthy (responder_id ((sample_parsed 42 0)\<lparr> responder_id := PInt 0 \<rparr>))"
    by simp
  from view_falsy_responder_unassigned [OF g e f] g e show ?thesis by simp
qed

section \<open>The subject column of the ticket table\<close>

text \<open>
  C2. Every row that \<^verbatim>\<open>list\<close> echoes below the header belongs to the ticket at the same
  position of the result, and that ticket's subject is a string. The row is the id field,
  a space, the subject field, a space and the rest. For a subject longer than 40
  characters the subject field is exactly its first 37 characters followed by
  \<^verbatim>\<open>...\<close>; otherwise it is the subject itself, unmodified, followed only by the blanks
  that fill the column to its width of 40.
\<close>

theorem list_cmd_subject_column:
  assumes "list_filters st pr = Inr f"
    and "snd (list_tickets srv cl (Some f) limit) = Inr ts"
    and "echoed (list_cmd srv cl rp st pr limit) = hdr # sep # rows"
    and "i < length rows"
  shows "i < length ts \<and>
    (\<exists>s c1 cell rest. subject (ts ! i) = PStr s \<and> format_left rp 10 (id (ts ! i)) = Inr c1
        \<and> rows ! i = c1 @ '' '' @ cell @ '' '' @ rest
        \<and> (40 < length s \<longrightarrow> cell = take 37 s @ ''...'')
        \<and> (length s \<le> 40 \<longrightarrow> cell = s @ replicate (40 - length s) CHR '' ''))"
proof -
  from list_cmd_echoed [OF assms(1,2), of rp] assms(3)
  have rows: "rows = fst (echo_rows rp ts)"
    by (simp split: if_splits)
  with assms(4) have i: "i < length ts" and row: "format_row rp (ts ! i) = Inr (rows ! i)"
    using echo_rows_nth [of i rp ts] by simp_all
  from format_row_Inr [OF row] obtain s c1 rest
    where s: "subject (ts ! i) = PStr s" and c1: "format_left rp 10 (id (ts ! i)) = Inr c1"
      and line: "rows ! i = c1 @ '' '' @
          ljust 40 (if 40 < length s then take 37 s @ ''...'' else s) @ '' '' @ rest"
    by blast
  let ?cell = "ljust 40 (if 40 < length s then take 37 s @ ''...'' else s)"
  have long: "40 < length s \<longrightarrow> ?cell = take 37 s @ ''...''"
    by (simp add: ljust_long)
  have short: "length s \<le> 40 \<longrightarrow> ?cell = s @ replicate (40 - length s) CHR '' ''"
    by (simp add: ljust_def)
  from i s c1 line long short show ?thesis by blast
qed


theorem list_cmd_subject_column_witness:
  "list_filters None None = Inr []
   \<and> snd (list_tickets
            (json_server (tickets_body [listed_ticket 1 long_subject 2 3,
                                        listed_ticket 2 ''VPN down'' 5 0]))
            sample_client (Some []) 20) =
       Inr [listed_parsed 1 long_subject 2 3, listed_parsed 2 ''VPN down'' 5 0]
   \<and> echoed (list_cmd
            (json_server (tickets_body [listed_ticket 1 long_subject 2 3,
                                        listed_ticket 2 ''VPN down'' 5 0]))
            sample_client no_repr None None 20) =
       [table_header, replicate 72 CHR ''-'',
        ''1          Printer on the third floor keeps jamm... Open         High      '',
        ''2          VPN down                                 Closed       0         '']
   \<and> 40 < length long_subject
   \<and> take 37 long_subject @ ''...'' = ''Printer on the third floor keeps jamm...''
   \<and> length ''VPN down'' \<le> 40"
proof -
  let ?srv = "json_server (tickets_body [listed_ticket 1 long_subject 2 3,
                                         listed_ticket 2 ''VPN down'' 5 0])"
  let ?ts = "[listed_parsed 1 long_subject 2 3, listed_parsed 2 ''VPN down'' 5 0]"
  let ?rows = "[''1          Printer on the third floor keeps jamm... Open         High      '',
        ''2          VPN down                                 Closed       0         '']"
  have fl: "list_filters None None = Inr []"
    by (simp add: list_filters_def)
  have run: "snd (list_tickets ?srv sample_client (Some []) 20) = Inr ?ts"
    by (simp add: list_tickets_snd json_server_def list_tickets_of_json from_dict_listed
        apply_filters_def slice_to_def)
  have ech: "echoed (list_cmd ?srv sample_client no_repr None None 20) =
      table_header # replicate 72 CHR ''-'' # ?rows"
    by (simp add: list_cmd_echoed [OF fl run] format_row_long format_row_short)
  have i: "(0::nat) < length ?rows" by simp
  from list_cmd_subject_column [OF fl run ech i]
  have "\<exists>s. subject (?ts ! 0) = PStr s" by blast
  moreover have "40 < length long_subject" by (simp add: long_subject_def)
  moreover have "take 37 long_subject @ ''...'' = ''Printer on the third floor keeps jamm...''"
    by (simp add: long_subject_def)
  ultimately show ?thesis using fl run ech by simp
qed

section \<open>Updating a status\<close>

text \<open>
  C7. For every ticket id and every status name among open, pending, resolved and
  closed, \<^verbatim>\<open>status\<close> maps the name to its code (2, 3, 4, 5) and sends exactly one
  request, whatever the server answers: the PUT to \<^verbatim>\<open>/tickets/{id}\<close> under the base URL
  with the JSON body \<^verbatim>\<open>{"status": code}\<close>, which is the one request of
  \<^verbatim>\<open>update_ticket_status\<close>. On a 2xx response \<^verbatim>\<open>update_ticket_status\<close> returns without a
  value and the command echoes the confirmation line and ends normally.
\<close>

theorem status_cmd_put:
  assumes "st \<in> {''open'', ''pending'', ''resolved'', ''closed''}"
  shows "\<exists>c. map_of [(''open'', 2), (''pending'', 3), (''resolved'', 4), (''closed'', 5)] st = Some c
    \<and> status_code_of st = Inr c
    \<and> sent (status_cmd srv cl es tid st) =
          [\<lparr> verb = PUT, url = base_url cl @ ''/tickets/'' @ str_int tid,
              json_payload = Some (PDict [(''status'', PInt c)]) \<rparr>]
    \<and> fst (update_ticket_status srv cl tid c) = sent (status_cmd srv cl es tid st)
    \<and> (\<forall>r. srv \<lparr> verb = PUT, url = base_url cl @ ''/tickets/'' @ str_int tid,
                   json_payload = Some (PDict [(''status'', PInt c)]) \<rparr> = Some r
             \<longrightarrow> 200 \<le> status_code r \<longrightarrow> status_code r \<le> 299
             \<longrightarrow> snd (update_ticket_status srv cl tid c) = Inr ()
                 \<and> echoed (status_cmd srv cl es tid st) =
                       [''Ticket #'' @ str_int tid @ '' status updated to '' @ st @ ''.'']
                 \<and> ended (status_cmd srv cl es tid st) = Success)"
proof -
  from assms obtain c
    where m: "map_of [(''open'', 2), (''pending'', 3), (''resolved'', 4), (''closed'', 5)] st
                = Some (c::int)"
    by auto
  then have sc: "status_code_of st = Inr c"
    by (simp add: status_code_of_def status_map_def)
  let ?rq = "\<lparr> verb = PUT, url = base_url cl @ ''/tickets/'' @ str_int tid,
               json_payload = Some (PDict [(''status'', PInt c)]) \<rparr>"
  have f: "fst (update_ticket_status srv cl tid c) = [?rq]"
    by (simp add: update_ticket_status_def Let_def)
  have s: "sent (status_cmd srv cl es tid st) = [?rq]"
    using sc by (simp add: status_cmd_def update_ticket_status_def Let_def split: sum.splits)
  have ok: "snd (update_ticket_status srv cl tid c) = Inr ()
      \<and> echoed (status_cmd srv cl es tid st) =
            [''Ticket #'' @ str_int tid @ '' status updated to '' @ st @ ''.'']
      \<and> ended (status_cmd srv cl es tid st) = Success"
    if "srv ?rq = Some r" "200 \<le> status_code r" "status_code r \<le> 299" for r
    using that sc raise_for_status_ok [OF that(2,3)]
    by (simp add: status_cmd_def update_ticket_status_def send_def Let_def)
  from m sc f s ok show ?thesis by auto
qed

theorem status_cmd_put_witness:
  "''closed'' \<in> {''open'', ''pending'', ''resolved'', ''closed''}
   \<and> sent (status_cmd (status_server 200) sample_client no_message 42 ''closed'') =
        [\<lparr> verb = PUT, url = ''https://acme.freshservice.com/api/v2/tickets/42'',
            json_payload = Some (PDict [(''status'', PInt 5)]) \<rparr>]
   \<and> snd (update_ticket_status (status_server 200) sample_client 42 5) = Inr ()
   \<and> echoed (status_cmd (status_server 200) sample_client no_message 42 ''closed'') =
        [''Ticket #42 status updated to closed.'']
   \<and> ended (status_cmd (status_server 200) sample_client no_message 42 ''closed'') = Success"
proof -
  have mem: "''closed'' \<in> {''open'', ''pending'', ''resolved'', ''closed''}" by simp
  from status_cmd_put [OF mem, of "status_server 200" sample_client no_message 42]
  show ?thesis
    by (auto simp: status_server_def sample_base_url str_int_42)
qed

end
